theory Spec2Isabelle
  imports Complex_Main
begin

section \<open>The avatar renderer: data model\<close>

text \<open>
  A shallow embedding of \<^verbatim>\<open>src/avatarrenderer.ts\<close>: the class \<^verbatim>\<open>AvatarRenderer\<close>,
  a subclass of the pose renderer of an external framework. A JavaScript number is taken
  as a real number: there is no rounding, no infinity and no NaN in this development.
  Objects are records held by value in the field that owns them; the scene keeps the
  identifiers of the nodes added to it. Methods take the renderer and return the renderer
  after the call together with the rejection of the returned promise, if any, so the
  writes made before a failing external call stay visible.
\<close>

subsection \<open>Vectors\<close>

datatype Vector3 = Vector3 (vx: real) (vy: real) (vz: real)

text \<open>
  Modelled from the spec: the vector class belongs to the external scene library and is not
  part of the source. Subtraction is componentwise.
\<close>
definition subtract :: "Vector3 \<Rightarrow> Vector3 \<Rightarrow> Vector3" where
  "subtract a b = Vector3 (vx a - vx b) (vy a - vy b) (vz a - vz b)"

text \<open>
  Modelled from the spec: the Euclidean length of a vector of the external scene library.
\<close>
definition length_v :: "Vector3 \<Rightarrow> real" where
  "length_v a = sqrt (vx a * vx a + vy a * vy a + vz a * vz a)"

text \<open>
  Modelled from the spec: normalisation of the external scene library. A vector of length
  zero is returned as it is (the zero vector); any other vector is scaled by the inverse of
  its length.
\<close>
definition normalize_v :: "Vector3 \<Rightarrow> Vector3" where
  "normalize_v a =
     (let len = length_v a
      in if len = 0 then a
         else Vector3 (vx a * (1 / len)) (vy a * (1 / len)) (vz a * (1 / len)))"

text \<open>
  Modelled from the spec: the dot product of the external scene library.
\<close>
definition Dot :: "Vector3 \<Rightarrow> Vector3 \<Rightarrow> real" where
  "Dot a b = vx a * vx b + vy a * vy b + vz a * vz b"

text \<open>
  Modelled from the spec: linear interpolation of the external scene library, from the
  first vector (amount 0) to the second (amount 1).
\<close>
definition Lerp :: "Vector3 \<Rightarrow> Vector3 \<Rightarrow> real \<Rightarrow> Vector3" where
  "Lerp a b amount =
     Vector3 (vx a + (vx b - vx a) * amount)
             (vy a + (vy b - vy a) * amount)
             (vz a + (vz b - vz a) * amount)"

subsection \<open>Pose results\<close>

text \<open>
  A keypoint carries its metric coordinates as a triple; a pose names its keypoints; a
  result has an optional list of poses.
\<close>

record PosePoint =
  metric :: "real \<times> real \<times> real"

record PosePoints =
  hipL :: PosePoint
  hipR :: PosePoint
  shoulderL :: PosePoint
  shoulderR :: PosePoint
  elbowL :: PosePoint
  elbowR :: PosePoint
  wristL :: PosePoint
  wristR :: PosePoint

record Pose =
  points :: PosePoints

record PoseResult =
  poses :: "Pose list option"

subsection \<open>Scene objects\<close>

datatype Color3 = Color3 real real real

datatype Color4 = Color4 real real real real

text \<open>
  A mesh: the fields the renderer reads or writes (\<open>rotations\<close> lists the rotations
  applied to the mesh, axis and angle, oldest first), and its geometry and material, which
  the renderer never looks into.
\<close>

record 'g AbstractMesh =
  mesh_id :: string
  position :: Vector3
  scaling :: Vector3
  rotations :: "(Vector3 \<times> real) list"
  enabled :: bool
  geometry :: 'g
  material :: 'g

record PointLight =
  pl_name :: string
  pl_position :: Vector3
  pl_intensity :: real
  pl_diffuse :: Color3
  pl_specular :: Color3

record HemisphericLight =
  hl_name :: string
  hl_direction :: Vector3
  hl_intensity :: real
  hl_diffuse :: Color3
  hl_specular :: Color3
  hl_groundColor :: Color3

record Scene =
  meshes :: "string list"
  lights :: "string list"
  environment :: "(bool \<times> string) option"
  clearColor :: "Color4 option"
  ambientColor :: "Color3 option"

record 'o PoseOutfitPlugin =
  plugin_mesh :: "string option"
  plugin_outfit :: "'o option"

datatype error = AssetLoadError string string | FrameworkError string

subsection \<open>The renderer\<close>

text \<open>
  The base class is external. The source reads two of its fields, \<^verbatim>\<open>loaded\<close> and
  \<^verbatim>\<open>scene\<close>; the rest of its state is \<open>internals\<close>.
\<close>

record 'b PoseRenderer =
  loaded :: bool
  scene :: "Scene option"
  internals :: 'b

record ('b, 'o, 'g) AvatarRenderer = "'b PoseRenderer" +
  plugin :: "'o PoseOutfitPlugin"
  model :: "'g AbstractMesh option"
  light :: "PointLight option"
  ambient :: "HemisphericLight option"
  lightInt :: real
  ambientInt :: real
  handsUp :: bool
  textModel :: "'g AbstractMesh option"
  url :: string
  outfit :: "'o option"

text \<open>
  A method of the base class works on the base class's fields. Calling it on the subclass
  object runs it on those fields and writes them back.
\<close>

definition asPoseRenderer :: "('b, 'o, 'g) AvatarRenderer \<Rightarrow> 'b PoseRenderer" where
  "asPoseRenderer this =
     \<lparr>loaded = loaded this, scene = scene this, internals = internals this\<rparr>"

definition super_call ::
  "('b PoseRenderer \<Rightarrow> 'b PoseRenderer \<times> error option) \<Rightarrow>
   ('b, 'o, 'g) AvatarRenderer \<Rightarrow> ('b, 'o, 'g) AvatarRenderer \<times> error option" where
  "super_call m this =
     (case m (asPoseRenderer this) of
        (b, e) \<Rightarrow>
          (this\<lparr>loaded := loaded b, scene := scene b, internals := internals b\<rparr>, e))"

section \<open>The hands-up classifier of update\<close>

definition newVector3 :: "PosePoint \<Rightarrow> Vector3" where
  "newVector3 p = (case metric p of (a, b, c) \<Rightarrow> Vector3 a b c)"

definition torsoL :: "Pose \<Rightarrow> Vector3" where
  "torsoL pose =
     normalize_v (subtract (newVector3 (shoulderL (points pose))) (newVector3 (hipL (points pose))))"

definition torsoR :: "Pose \<Rightarrow> Vector3" where
  "torsoR pose =
     normalize_v (subtract (newVector3 (shoulderR (points pose))) (newVector3 (hipR (points pose))))"

definition armL :: "Pose \<Rightarrow> Vector3" where
  "armL pose =
     normalize_v (subtract (newVector3 (elbowL (points pose))) (newVector3 (shoulderL (points pose))))"

definition armR :: "Pose \<Rightarrow> Vector3" where
  "armR pose =
     normalize_v (subtract (newVector3 (elbowR (points pose))) (newVector3 (shoulderR (points pose))))"

definition foreArmL :: "Pose \<Rightarrow> Vector3" where
  "foreArmL pose =
     normalize_v (subtract (newVector3 (wristL (points pose))) (newVector3 (elbowL (points pose))))"

definition foreArmR :: "Pose \<Rightarrow> Vector3" where
  "foreArmR pose =
     normalize_v (subtract (newVector3 (wristR (points pose))) (newVector3 (elbowR (points pose))))"

definition armLCos :: "Pose \<Rightarrow> real" where
  "armLCos pose = Dot (torsoL pose) (armL pose)"

definition armRCos :: "Pose \<Rightarrow> real" where
  "armRCos pose = Dot (torsoR pose) (armR pose)"

definition foreArmLCos :: "Pose \<Rightarrow> real" where
  "foreArmLCos pose = Dot (foreArmL pose) (armL pose)"

definition foreArmRCos :: "Pose \<Rightarrow> real" where
  "foreArmRCos pose = Dot (foreArmR pose) (armR pose)"

definition cosMin :: "Pose \<Rightarrow> real" where
  "cosMin pose =
     min (min (min (armLCos pose) (armRCos pose)) (foreArmLCos pose)) (foreArmRCos pose)"

text \<open>The first pose of the result, when the result has a non-empty list of poses.\<close>

definition firstPose :: "PoseResult \<Rightarrow> Pose option" where
  "firstPose result =
     (case poses result of
        None \<Rightarrow> None
      | Some [] \<Rightarrow> None
      | Some (p # ps) \<Rightarrow> Some p)"

text \<open>
  \<^verbatim>\<open>update\<close>: the two threshold tests are two statements, one after the other; the
  marker is written when the renderer has one; the base class's update runs last, and on
  a result with no pose right after \<^verbatim>\<open>handsUp\<close> is cleared.
\<close>

definition update ::
  "(PoseResult \<Rightarrow> 'c \<Rightarrow> 'b PoseRenderer \<Rightarrow> 'b PoseRenderer \<times> error option) \<Rightarrow>
   PoseResult \<Rightarrow> 'c \<Rightarrow> ('b, 'o, 'g) AvatarRenderer \<Rightarrow> ('b, 'o, 'g) AvatarRenderer \<times> error option" where
  "update super_update result stream this =
     (case firstPose result of
        None \<Rightarrow> super_call (super_update result stream) (this\<lparr>handsUp := False\<rparr>)
      | Some pose \<Rightarrow>
          (let c = cosMin pose;
               this1 = (if c > 0.8 then this\<lparr>handsUp := True\<rparr> else this);
               this2 = (if c < 0.7 then this1\<lparr>handsUp := False\<rparr> else this1);
               this3 =
                 (case textModel this2 of
                    None \<Rightarrow> this2
                  | Some tm \<Rightarrow>
                      this2\<lparr>textModel :=
                        Some (tm\<lparr>position :=
                                   Lerp (newVector3 (wristL (points pose)))
                                        (newVector3 (wristR (points pose))) 0.5,
                                 enabled := handsUp this2\<rparr>)\<rparr>)
           in super_call (super_update result stream) this3))"

section \<open>Loading and scene setup\<close>

text \<open>
  The asset loader is external: given a root path and a file name it yields the meshes of
  the loaded container, or fails.
\<close>

type_synonym 'g loader = "string \<Rightarrow> string \<Rightarrow> error + 'g AbstractMesh list"

definition addAllToScene ::
  "'g AbstractMesh list \<Rightarrow> ('b, 'o, 'g) AvatarRenderer \<Rightarrow> ('b, 'o, 'g) AvatarRenderer" where
  "addAllToScene ms this =
     this\<lparr>scene := map_option (\<lambda>sc. sc\<lparr>meshes := meshes sc @ map mesh_id ms\<rparr>) (scene this)\<rparr>"

text \<open>
  \<^verbatim>\<open>setOutfit\<close>: the old model leaves the scene and is dropped, the new one is loaded,
  its root mesh becomes the model and is handed to the plugin. A failing load rejects
  after the old model is gone and the url and outfit are stored.
\<close>

definition setOutfit ::
  "'g loader \<Rightarrow> string \<Rightarrow> 'o option \<Rightarrow> ('b, 'o, 'g) AvatarRenderer \<Rightarrow>
   ('b, 'o, 'g) AvatarRenderer \<times> error option" where
  "setOutfit loadAssets u out this =
     (let this1 =
            (case model this of
               None \<Rightarrow> this
             | Some m \<Rightarrow>
                 this\<lparr>scene :=
                   map_option (\<lambda>sc. sc\<lparr>meshes := removeAll (mesh_id m) (meshes sc)\<rparr>)
                     (scene this)\<rparr>);
          this2 = this1\<lparr>model := None, url := u, outfit := out\<rparr>
      in case loadAssets '''' u of
           Inl e \<Rightarrow> (this2, Some e)
         | Inr ms \<Rightarrow>
             (let this3 = this2\<lparr>model := find (\<lambda>m. mesh_id m = ''__root__'') ms\<rparr>;
                  this4 = addAllToScene ms this3
              in (this4\<lparr>plugin :=
                     \<lparr>plugin_mesh = map_option mesh_id (model this4),
                      plugin_outfit = out\<rparr>\<rparr>, None)))"

definition setModel ::
  "'g loader \<Rightarrow> string \<Rightarrow> ('b, 'o, 'g) AvatarRenderer \<Rightarrow>
   ('b, 'o, 'g) AvatarRenderer \<times> error option" where
  "setModel loadAssets u this = setOutfit loadAssets u (outfit this) this"

text \<open>The first element that satisfies the test is replaced, as a write through the
  reference that a search of the list returns.\<close>

fun update_first :: "('a \<Rightarrow> bool) \<Rightarrow> ('a \<Rightarrow> 'a) \<Rightarrow> 'a list \<Rightarrow> 'a list" where
  "update_first P f [] = []"
| "update_first P f (a # as) = (if P a then f a # as else a # update_first P f as)"

definition setupScene ::
  "'g loader \<Rightarrow> ('b, 'o, 'g) AvatarRenderer \<Rightarrow> ('b, 'o, 'g) AvatarRenderer \<times> error option" where
  "setupScene loadAssets this =
     (case setModel loadAssets (url this) this of
        (this1, Some e) \<Rightarrow> (this1, Some e)
      | (this1, None) \<Rightarrow>
          (let this2 =
                 this1\<lparr>light :=
                   Some \<lparr>pl_name = ''pointLight'', pl_position = Vector3 0 0 0,
                         pl_intensity = lightInt this1,
                         pl_diffuse = Color3 1 1 1, pl_specular = Color3 1 1 1\<rparr>,
                   ambient :=
                   Some \<lparr>hl_name = ''ambientLight'', hl_direction = Vector3 0 1 0,
                         hl_intensity = ambientInt this1,
                         hl_diffuse = Color3 1 1 1, hl_specular = Color3 1 1 1,
                         hl_groundColor = Color3 1 1 1\<rparr>,
                   scene :=
                   map_option
                     (\<lambda>sc. sc\<lparr>lights := lights sc @ [''pointLight'', ''ambientLight''],
                               environment := Some (False, ''environment.env''),
                               clearColor := Some (Color4 0 0 0 0),
                               ambientColor := Some (Color3 1 1 1)\<rparr>)
                     (scene this1)\<rparr>
           in case loadAssets ''./'' ''text.glb'' of
                Inl e \<Rightarrow> (this2, Some e)
              | Inr ms \<Rightarrow>
                  (let ms' =
                         update_first (\<lambda>m. mesh_id m = ''Text'')
                           (\<lambda>m. m\<lparr>scaling := Vector3 0.075 0.075 0.075,
                                   rotations :=
                                     rotations m @ [(Vector3 0 1 0, pi), (Vector3 1 0 0, pi / 2)]\<rparr>)
                           ms;
                       this3 = this2\<lparr>textModel := find (\<lambda>m. mesh_id m = ''__root__'') ms'\<rparr>
                   in (addAllToScene ms' this3, None))))"

text \<open>
  \<^verbatim>\<open>load\<close>: nothing happens on a renderer that is loaded or has no scene; otherwise the
  scene is set up and the base class's load runs.
\<close>

definition load ::
  "'g loader \<Rightarrow> ('b PoseRenderer \<Rightarrow> 'b PoseRenderer \<times> error option) \<Rightarrow>
   ('b, 'o, 'g) AvatarRenderer \<Rightarrow> ('b, 'o, 'g) AvatarRenderer \<times> error option" where
  "load loadAssets super_load this =
     (if loaded this \<or> scene this = None then (this, None)
      else case setupScene loadAssets this of
             (this1, Some e) \<Rightarrow> (this1, Some e)
           | (this1, None) \<Rightarrow> super_call super_load this1)"

text \<open>
  The rule of the specification, in its words: above 0.8 the state is true, else below 0.7
  it is false, else it is the previous state.
\<close>

definition hysteresis_spec :: "real \<Rightarrow> bool \<Rightarrow> bool" where
  "hysteresis_spec c previousState =
     (if c > 0.8 then True else if c < 0.7 then False else previousState)"

text \<open>Values for the examples: a base renderer whose update and load succeed, an asset
  loader, poses with straight, bent and hanging arms, and a renderer with a marker.\<close>

definition ok_update :: "PoseResult \<Rightarrow> unit \<Rightarrow> unit PoseRenderer \<Rightarrow> unit PoseRenderer \<times> error option" where
  "ok_update result stream b = (b, None)"

definition ok_load :: "unit PoseRenderer \<Rightarrow> unit PoseRenderer \<times> error option" where
  "ok_load b = (b\<lparr>loaded := True\<rparr>, None)"

definition mesh0 :: "string \<Rightarrow> nat AbstractMesh" where
  "mesh0 n =
     \<lparr>mesh_id = n, position = Vector3 0 0 0, scaling = Vector3 1 1 1, rotations = [],
      enabled = True, geometry = 1, material = 2\<rparr>"

definition demo_loader :: "nat loader" where
  "demo_loader dir file = Inr [mesh0 ''__root__'', mesh0 ''Text'']"

definition pt :: "real \<Rightarrow> real \<Rightarrow> real \<Rightarrow> PosePoint" where
  "pt a b c = \<lparr>metric = (a, b, c)\<rparr>"

text \<open>Both arms along the given direction \<open>(dx, dy)\<close>, the torso upright.\<close>

definition arms_pose :: "real \<Rightarrow> real \<Rightarrow> Pose" where
  "arms_pose dx dy =
     \<lparr>points =
        \<lparr>hipL = pt 0 0 0, hipR = pt 2 0 0,
         shoulderL = pt 0 1 0, shoulderR = pt 2 1 0,
         elbowL = pt dx (1 + dy) 0, elbowR = pt (2 + dx) (1 + dy) 0,
         wristL = pt (2 * dx) (1 + 2 * dy) 0, wristR = pt (2 + 2 * dx) (1 + 2 * dy) 0\<rparr>\<rparr>"

definition frame :: "Pose \<Rightarrow> PoseResult" where
  "frame p = \<lparr>poses = Some [p]\<rparr>"

definition renderer0 :: "bool \<Rightarrow> bool \<Rightarrow> (unit, unit, nat) AvatarRenderer" where
  "renderer0 up vis =
     \<lparr>loaded = True,
      scene = Some \<lparr>meshes = [''__root__'', ''Text''], lights = [], environment = None,
                   clearColor = None, ambientColor = None\<rparr>,
      internals = (),
      plugin = \<lparr>plugin_mesh = None, plugin_outfit = None\<rparr>,
      model = None, light = None, ambient = None, lightInt = 0.5, ambientInt = 0.5,
      handsUp = up,
      textModel = Some ((mesh0 ''__root__'')\<lparr>position := Vector3 5 6 7, enabled := vis\<rparr>),
      url = ''onesie.glb'', outfit = None\<rparr>"

text \<open>A pose whose joints are at the origin, but for the right wrist.\<close>

definition still_pose :: Pose where
  "still_pose =
     \<lparr>points =
        \<lparr>hipL = pt 0 0 0, hipR = pt 0 0 0, shoulderL = pt 0 0 0, shoulderR = pt 0 0 0,
         elbowL = pt 0 0 0, elbowR = pt 0 0 0, wristL = pt 0 0 0, wristR = pt 2 0 0\<rparr>\<rparr>"

text \<open>A pose whose joints all coincide.\<close>

definition collapsed_pose :: Pose where
  "collapsed_pose =
     \<lparr>points =
        \<lparr>hipL = pt 1 2 3, hipR = pt 1 2 3, shoulderL = pt 1 2 3, shoulderR = pt 1 2 3,
         elbowL = pt 1 2 3, elbowR = pt 1 2 3, wristL = pt 1 2 3, wristR = pt 1 2 3\<rparr>\<rparr>"

text \<open>A renderer that is not loaded yet, on an empty scene.\<close>

definition scene0 :: Scene where
  "scene0 =
     \<lparr>meshes = [], lights = [], environment = None, clearColor = None, ambientColor = None\<rparr>"

definition unloaded0 :: "(unit, unit, nat) AvatarRenderer" where
  "unloaded0 =
     (renderer0 False False)\<lparr>loaded := False, scene := Some scene0, textModel := None\<rparr>"

section \<open>Properties of update\<close>

lemma handsUp_super_call: "handsUp (fst (super_call m this)) = handsUp this"
  by (simp add: super_call_def split: prod.splits)

lemma textModel_super_call: "textModel (fst (super_call m this)) = textModel this"
  by (simp add: super_call_def split: prod.splits)

lemma snd_super_call: "snd (super_call m this) = snd (m (asPoseRenderer this))"
  by (simp add: super_call_def split: prod.splits)

subsection \<open>The example poses\<close>

lemma unit_dir_le_1:
  fixes dx dy :: real
  assumes "dx * dx + dy * dy = 1"
  shows "dy \<le> 1"
proof (rule ccontr)
  assume "\<not> dy \<le> 1"
  then have "1 < dy" by simp
  then have "1 * 1 < dy * dy" by (intro mult_strict_mono) simp_all
  moreover have "0 \<le> dx * dx" by simp
  ultimately show False using assms by linarith
qed

lemma arms_pose_cos:
  assumes "dx * dx + dy * dy = 1"
  shows "armLCos (arms_pose dx dy) = dy" and "armRCos (arms_pose dx dy) = dy"
    and "foreArmLCos (arms_pose dx dy) = 1" and "foreArmRCos (arms_pose dx dy) = 1"
proof -
  have len: "length_v (Vector3 dx dy 0) = 1"
    using assms by (simp add: length_v_def)
  have n: "normalize_v (Vector3 dx dy 0) = Vector3 dx dy 0"
    by (simp add: normalize_v_def len)
  have up: "normalize_v (Vector3 0 1 0) = Vector3 0 1 0"
    by (simp add: normalize_v_def length_v_def)
  have t: "torsoL (arms_pose dx dy) = Vector3 0 1 0" "torsoR (arms_pose dx dy) = Vector3 0 1 0"
    by (simp_all add: torsoL_def torsoR_def arms_pose_def pt_def newVector3_def subtract_def up)
  have a: "armL (arms_pose dx dy) = Vector3 dx dy 0" "armR (arms_pose dx dy) = Vector3 dx dy 0"
    by (simp_all add: armL_def armR_def arms_pose_def pt_def newVector3_def subtract_def n)
  have f: "foreArmL (arms_pose dx dy) = Vector3 dx dy 0"
    "foreArmR (arms_pose dx dy) = Vector3 dx dy 0"
    by (simp_all add: foreArmL_def foreArmR_def arms_pose_def pt_def newVector3_def
        subtract_def n)
  show "armLCos (arms_pose dx dy) = dy" and "armRCos (arms_pose dx dy) = dy"
    by (simp_all add: armLCos_def armRCos_def t a Dot_def)
  show "foreArmLCos (arms_pose dx dy) = 1" and "foreArmRCos (arms_pose dx dy) = 1"
    using assms by (simp_all add: foreArmLCos_def foreArmRCos_def f a Dot_def)
qed

lemma cosMin_arms_pose:
  assumes "dx * dx + dy * dy = 1"
  shows "cosMin (arms_pose dx dy) = dy"
  using unit_dir_le_1 [OF assms] by (simp add: cosMin_def arms_pose_cos [OF assms])

lemma firstPose_frame: "firstPose (frame p) = Some p"
  by (simp add: firstPose_def frame_def)

subsection \<open>What update writes\<close>

lemma handsUp_update:
  "handsUp (fst (update super_update result stream this)) =
     (case firstPose result of
        None \<Rightarrow> False
      | Some pose \<Rightarrow>
          (if cosMin pose < 0.7 then False
           else if cosMin pose > 0.8 then True else handsUp this))"
  by (simp add: update_def Let_def handsUp_super_call split: option.splits)

lemma textModel_update:
  "textModel (fst (update super_update result stream this)) =
     (case firstPose result of
        None \<Rightarrow> textModel this
      | Some pose \<Rightarrow>
          map_option
            (\<lambda>tm. tm\<lparr>position := Lerp (newVector3 (wristL (points pose)))
                                      (newVector3 (wristR (points pose))) 0.5,
                      enabled := handsUp (fst (update super_update result stream this))\<rparr>)
            (textModel this))"
  by (simp add: update_def Let_def handsUp_super_call textModel_super_call split: option.splits)

lemma firstPose_None_iff:
  "firstPose result = None \<longleftrightarrow> poses result = None \<or> poses result = Some []"
  by (simp add: firstPose_def split: option.splits list.splits)

lemma asPoseRenderer_upd [simp]:
  "asPoseRenderer (this\<lparr>handsUp := h\<rparr>) = asPoseRenderer this"
  "asPoseRenderer (this\<lparr>textModel := t\<rparr>) = asPoseRenderer this"
  by (simp_all add: asPoseRenderer_def)

lemma snd_update:
  "snd (update super_update result stream this) =
     snd (super_update result stream (asPoseRenderer this))"
  by (simp add: update_def Let_def snd_super_call split: option.splits)

subsection \<open>The thresholds\<close>

text \<open>
  Claim C1. On a frame with a pose whose minimum cosine is strictly above 0.8, update
  leaves \<^verbatim>\<open>handsUp\<close> true, whatever it was before and whatever the base class's update
  does.
\<close>

theorem update_hands_up:
  assumes "firstPose result = Some pose" and "cosMin pose > 0.8"
  shows "handsUp (fst (update super_update result stream this)) = True"
  using assms by (simp add: handsUp_update)

text \<open>Arms straight up: every cosine is 1.\<close>

theorem update_hands_up_witness:
  "firstPose (frame (arms_pose 0 1)) = Some (arms_pose 0 1) \<and>
   cosMin (arms_pose 0 1) > 0.8 \<and>
   handsUp (fst (update ok_update (frame (arms_pose 0 1)) () (renderer0 False False))) = True"
proof -
  have c: "cosMin (arms_pose 0 1) > 0.8" by (simp add: cosMin_arms_pose)
  show ?thesis
    using update_hands_up [OF firstPose_frame c, of ok_update "()" "renderer0 False False"] c
    by (simp add: firstPose_frame)
qed

text \<open>
  Claim C2. On a frame with a pose, one of the four cosines is below 0.7 exactly when the
  minimum is; then update leaves \<^verbatim>\<open>handsUp\<close> false, whatever it was before. The two
  tests cannot both hold, so the two statements of the source compute the if / else-if
  rule of the specification.
\<close>

theorem update_hands_down:
  assumes "firstPose result = Some pose"
  shows "((armLCos pose < 0.7 \<or> armRCos pose < 0.7 \<or> foreArmLCos pose < 0.7 \<or>
           foreArmRCos pose < 0.7) = (cosMin pose < 0.7)) \<and>
         (cosMin pose < 0.7 \<longrightarrow>
            handsUp (fst (update super_update result stream this)) = False) \<and>
         \<not> (cosMin pose > 0.8 \<and> cosMin pose < 0.7) \<and>
         handsUp (fst (update super_update result stream this)) =
           hysteresis_spec (cosMin pose) (handsUp this)"
proof -
  have "(armLCos pose < 0.7 \<or> armRCos pose < 0.7 \<or> foreArmLCos pose < 0.7 \<or>
           foreArmRCos pose < 0.7) = (cosMin pose < 0.7)"
    by (auto simp: cosMin_def min_less_iff_disj)
  moreover have "\<not> (cosMin pose > 0.8 \<and> cosMin pose < 0.7)" by simp
  moreover have "handsUp (fst (update super_update result stream this)) =
           hysteresis_spec (cosMin pose) (handsUp this)"
    using assms by (simp add: handsUp_update hysteresis_spec_def)
  moreover have "cosMin pose < 0.7 \<longrightarrow>
            handsUp (fst (update super_update result stream this)) = False"
    using assms by (simp add: handsUp_update)
  ultimately show ?thesis by blast
qed

text \<open>Arms hanging down: the arm cosines are -1.\<close>

theorem update_hands_down_witness:
  "firstPose (frame (arms_pose 0 (- 1))) = Some (arms_pose 0 (- 1)) \<and>
   armLCos (arms_pose 0 (- 1)) < 0.7 \<and>
   cosMin (arms_pose 0 (- 1)) < 0.7 \<and>
   handsUp (fst (update ok_update (frame (arms_pose 0 (- 1))) () (renderer0 True True))) = False \<and>
   hysteresis_spec (cosMin (arms_pose 0 (- 1))) True = False"
proof -
  have c: "cosMin (arms_pose 0 (- 1)) = - 1" by (simp add: cosMin_arms_pose)
  have a: "armLCos (arms_pose 0 (- 1)) = - 1" by (simp add: arms_pose_cos)
  have h: "handsUp (renderer0 True True) = True" by (simp add: renderer0_def)
  show ?thesis
    using update_hands_down [OF firstPose_frame, of "arms_pose 0 (- 1)" ok_update "()"
        "renderer0 True True"]
    by (simp add: firstPose_frame c a h hysteresis_spec_def)
qed

text \<open>
  Claim C3. On a frame with a pose whose minimum cosine lies in the closed band from 0.7
  to 0.8, update leaves \<^verbatim>\<open>handsUp\<close> as it was; so \<^verbatim>\<open>handsUp\<close> changes only when the
  minimum cosine is above 0.8 or below 0.7.
\<close>

theorem update_dead_band:
  assumes "firstPose result = Some pose"
  shows "(0.7 \<le> cosMin pose \<and> cosMin pose \<le> 0.8 \<longrightarrow>
            handsUp (fst (update super_update result stream this)) = handsUp this) \<and>
         (handsUp (fst (update super_update result stream this)) \<noteq> handsUp this \<longrightarrow>
            cosMin pose > 0.8 \<or> cosMin pose < 0.7)"
  using assms by (simp add: handsUp_update)

text \<open>Arms along (3/5, 4/5): the minimum cosine is exactly 0.8, and the state stays as
  it was, true or false; with the arms straight up the state changes.\<close>

theorem update_dead_band_witness:
  "firstPose (frame (arms_pose (3 / 5) (4 / 5))) = Some (arms_pose (3 / 5) (4 / 5)) \<and>
   cosMin (arms_pose (3 / 5) (4 / 5)) = 0.8 \<and>
   handsUp (fst (update ok_update (frame (arms_pose (3 / 5) (4 / 5))) () (renderer0 False False))) = False \<and>
   handsUp (fst (update ok_update (frame (arms_pose (3 / 5) (4 / 5))) () (renderer0 True True))) = True \<and>
   handsUp (fst (update ok_update (frame (arms_pose 0 1)) () (renderer0 False False))) \<noteq> handsUp (renderer0 False False) \<and>
   cosMin (arms_pose 0 1) > 0.8"
proof -
  have c: "cosMin (arms_pose (3 / 5) (4 / 5)) = 0.8" by (simp add: cosMin_arms_pose)
  have c1: "cosMin (arms_pose 0 1) = 1" by (simp add: cosMin_arms_pose)
  have h: "handsUp (renderer0 True True) = True" "handsUp (renderer0 False False) = False" by (simp_all add: renderer0_def)
  have u: "handsUp (fst (update ok_update (frame (arms_pose 0 1)) () (renderer0 False False)))"
    by (simp add: handsUp_update firstPose_frame c1)
  show ?thesis
    using update_dead_band [OF firstPose_frame, of "arms_pose (3 / 5) (4 / 5)" ok_update "()" "renderer0 False False"]
       update_dead_band [OF firstPose_frame, of "arms_pose (3 / 5) (4 / 5)" ok_update "()" "renderer0 True True"]
       update_dead_band [OF firstPose_frame, of "arms_pose 0 1" ok_update "()" "renderer0 False False"]
    by (simp add: firstPose_frame c c1 h u)
qed

subsection \<open>Frames without a pose\<close>

text \<open>
  Claim C4. On a result with no pose (no list of poses, or an empty one) update leaves
  \<^verbatim>\<open>handsUp\<close> false and the marker's position as it was, and it rejects only if the
  base class's update does, with that error.
\<close>

theorem update_no_pose:
  assumes "poses result = None \<or> poses result = Some []"
  shows "handsUp (fst (update super_update result stream this)) = False \<and>
         map_option position (textModel (fst (update super_update result stream this))) =
           map_option position (textModel this) \<and>
         snd (update super_update result stream this) =
           snd (super_update result stream (asPoseRenderer this))"
proof -
  from assms have "firstPose result = None" by (simp add: firstPose_None_iff)
  then show ?thesis by (simp add: handsUp_update textModel_update snd_update)
qed

text \<open>
  A renderer with the hands up and a marker at (5, 6, 7), on an empty list of poses.
\<close>

theorem update_no_pose_witness:
  "(poses \<lparr>poses = Some []\<rparr> = None \<or> poses \<lparr>poses = Some []\<rparr> = Some []) \<and>
   handsUp (fst (update ok_update \<lparr>poses = Some []\<rparr> () (renderer0 True True))) = False \<and>
   map_option position
     (textModel (fst (update ok_update \<lparr>poses = Some []\<rparr> () (renderer0 True True)))) =
     Some (Vector3 5 6 7) \<and>
   snd (update ok_update \<lparr>poses = Some []\<rparr> () (renderer0 True True)) = None"
  using update_no_pose [where result = "\<lparr>poses = Some []\<rparr>" and super_update = ok_update
      and stream = "()" and this = "renderer0 True True"]
  by (simp add: renderer0_def ok_update_def)

text \<open>
  Claim C9. On a result with no pose update returns before the block that writes the
  marker: the marker is the one the renderer had, so a marker that was enabled is still
  enabled after the frame, while \<^verbatim>\<open>handsUp\<close> is false.
\<close>

theorem update_no_pose_marker_kept:
  assumes "poses result = None \<or> poses result = Some []"
  shows "textModel (fst (update super_update result stream this)) = textModel this \<and>
         (textModel this = Some tm \<and> enabled tm \<longrightarrow>
            map_option enabled (textModel (fst (update super_update result stream this))) =
              Some True \<and>
            handsUp (fst (update super_update result stream this)) = False)"
proof -
  from assms have "firstPose result = None" by (simp add: firstPose_None_iff)
  then show ?thesis by (simp add: handsUp_update textModel_update)
qed

text \<open>
  The same renderer on a result without a list of poses.
\<close>

theorem update_no_pose_marker_kept_witness:
  "(poses \<lparr>poses = None\<rparr> = None \<or> poses \<lparr>poses = None\<rparr> = Some []) \<and>
   textModel (renderer0 True True) = Some ((mesh0 ''__root__'')\<lparr>position := Vector3 5 6 7\<rparr>) \<and>
   enabled ((mesh0 ''__root__'')\<lparr>position := Vector3 5 6 7\<rparr>) \<and>
   map_option enabled
     (textModel (fst (update ok_update \<lparr>poses = None\<rparr> () (renderer0 True True)))) =
     Some True \<and>
   handsUp (fst (update ok_update \<lparr>poses = None\<rparr> () (renderer0 True True))) = False"
  using update_no_pose_marker_kept [where result = "\<lparr>poses = None\<rparr>"
      and this = "renderer0 True True"
      and tm = "(mesh0 ''__root__'')\<lparr>position := Vector3 5 6 7\<rparr>"
      and super_update = ok_update and stream = "()"]
  by (simp add: renderer0_def mesh0_def)

text \<open>
  Claim C5. The marker's enabled flag is not set to the new state on every frame: the
  renderer with the hands up and the marker enabled, given an empty list of poses, ends
  with \<^verbatim>\<open>handsUp\<close> false and the marker still enabled.
\<close>

theorem update_no_pose_marker_stale:
  "handsUp (renderer0 True True) = True \<and>
   map_option enabled (textModel (renderer0 True True)) = Some True \<and>
   handsUp (fst (update ok_update \<lparr>poses = Some []\<rparr> () (renderer0 True True))) = False \<and>
   map_option enabled
     (textModel (fst (update ok_update \<lparr>poses = Some []\<rparr> () (renderer0 True True)))) =
     Some True"
  by (simp add: handsUp_update textModel_update firstPose_def renderer0_def)

subsection \<open>The marker\<close>

text \<open>
  Claim C6. On a frame with a pose, a renderer that has a marker gets the marker's
  position set to the interpolation at 0.5 between the left and the right wrist, which is
  their midpoint.
\<close>

theorem update_marker_midpoint:
  assumes "firstPose result = Some pose" and "textModel this = Some tm"
    and "metric (wristL (points pose)) = (xl, yl, zl)"
    and "metric (wristR (points pose)) = (xr, yr, zr)"
  shows "map_option position (textModel (fst (update super_update result stream this))) =
           Some (Lerp (Vector3 xl yl zl) (Vector3 xr yr zr) 0.5) \<and>
         Lerp (Vector3 xl yl zl) (Vector3 xr yr zr) 0.5 =
           Vector3 ((xl + xr) / 2) ((yl + yr) / 2) ((zl + zr) / 2)"
proof -
  have "Lerp (Vector3 xl yl zl) (Vector3 xr yr zr) 0.5 =
           Vector3 ((xl + xr) / 2) ((yl + yr) / 2) ((zl + zr) / 2)"
    by (simp add: Lerp_def field_simps)
  moreover have "map_option position (textModel (fst (update super_update result stream this))) =
           Some (Lerp (Vector3 xl yl zl) (Vector3 xr yr zr) 0.5)"
    using assms by (simp add: textModel_update newVector3_def)
  ultimately show ?thesis by simp
qed

text \<open>
  Wrists at (0, 0, 0) and (2, 0, 0): the marker goes to (1, 0, 0).
\<close>

theorem update_marker_midpoint_witness:
  "firstPose (frame still_pose) = Some still_pose \<and>
   textModel (renderer0 False False) =
     Some ((mesh0 ''__root__'')\<lparr>position := Vector3 5 6 7, enabled := False\<rparr>) \<and>
   metric (wristL (points still_pose)) = (0, 0, 0) \<and>
   metric (wristR (points still_pose)) = (2, 0, 0) \<and>
   map_option position
     (textModel (fst (update ok_update (frame still_pose) () (renderer0 False False)))) =
     Some (Vector3 1 0 0)"
proof -
  have l: "metric (wristL (points still_pose)) = (0, 0, 0)"
    and r: "metric (wristR (points still_pose)) = (2, 0, 0)"
    by (simp_all add: still_pose_def pt_def)
  have t: "textModel (renderer0 False False) =
     Some ((mesh0 ''__root__'')\<lparr>position := Vector3 5 6 7, enabled := False\<rparr>)"
    by (simp add: renderer0_def)
  have "map_option position
     (textModel (fst (update ok_update (frame still_pose) () (renderer0 False False)))) =
     Some (Vector3 ((0 + 2) / 2) ((0 + 0) / 2) ((0 + 0) / 2))"
    using update_marker_midpoint [OF firstPose_frame t l r, of ok_update "()"]
    by (simp only:)
  then have "map_option position
     (textModel (fst (update ok_update (frame still_pose) () (renderer0 False False)))) =
     Some (Vector3 1 0 0)"
    by (simp only: add_0 div_self zero_neq_numeral not_False_eq_True div_0 add_0_right)
  with l r t show ?thesis
    by (simp only: firstPose_frame simp_thms)
qed

text \<open>
  Claim C8. Of the marker, update writes the position and the enabled flag only: with
  these two fields overwritten by any fixed values the marker after update is the marker
  before; its identifier, scaling, rotations, geometry and material are unchanged.
\<close>

theorem update_marker_frame:
  "map_option (\<lambda>tm. tm\<lparr>position := v, enabled := b\<rparr>)
     (textModel (fst (update super_update result stream this))) =
   map_option (\<lambda>tm. tm\<lparr>position := v, enabled := b\<rparr>) (textModel this) \<and>
   map_option mesh_id (textModel (fst (update super_update result stream this))) =
     map_option mesh_id (textModel this) \<and>
   map_option scaling (textModel (fst (update super_update result stream this))) =
     map_option scaling (textModel this) \<and>
   map_option rotations (textModel (fst (update super_update result stream this))) =
     map_option rotations (textModel this) \<and>
   map_option geometry (textModel (fst (update super_update result stream this))) =
     map_option geometry (textModel this) \<and>
   map_option material (textModel (fst (update super_update result stream this))) =
     map_option material (textModel this)"
  by (cases "firstPose result"; cases "textModel this") (simp_all add: textModel_update)

subsection \<open>Coincident joints\<close>

lemma normalize_v_zero: "normalize_v (Vector3 0 0 0) = Vector3 0 0 0"
  by (simp add: normalize_v_def length_v_def)

lemma limb_zero:
  "metric a = metric b \<Longrightarrow>
     normalize_v (subtract (newVector3 a) (newVector3 b)) = Vector3 0 0 0"
  by (simp add: subtract_def newVector3_def normalize_v_zero split: prod.splits)

lemma Dot_zero: "Dot (Vector3 0 0 0) v = 0" "Dot v (Vector3 0 0 0) = 0"
  by (simp_all add: Dot_def)

lemma cosMin_le:
  "cosMin pose \<le> armLCos pose" "cosMin pose \<le> armRCos pose"
  "cosMin pose \<le> foreArmLCos pose" "cosMin pose \<le> foreArmRCos pose"
  by (simp_all add: cosMin_def)

text \<open>
  Claim C7. Normalising the zero vector gives the zero vector. On a frame with a pose, a
  limb whose two joints coincide makes each cosine it enters 0; once one of the four
  cosines is 0 the minimum is at most 0 and update leaves \<^verbatim>\<open>handsUp\<close> false. Update
  has no failure of its own: it rejects only if the base class's update does.
\<close>

theorem update_degenerate_limb:
  assumes "firstPose result = Some pose"
  shows "normalize_v (Vector3 0 0 0) = Vector3 0 0 0 \<and>
         (metric (shoulderL (points pose)) = metric (hipL (points pose)) \<longrightarrow>
            armLCos pose = 0) \<and>
         (metric (shoulderR (points pose)) = metric (hipR (points pose)) \<longrightarrow>
            armRCos pose = 0) \<and>
         (metric (elbowL (points pose)) = metric (shoulderL (points pose)) \<longrightarrow>
            armLCos pose = 0 \<and> foreArmLCos pose = 0) \<and>
         (metric (elbowR (points pose)) = metric (shoulderR (points pose)) \<longrightarrow>
            armRCos pose = 0 \<and> foreArmRCos pose = 0) \<and>
         (metric (wristL (points pose)) = metric (elbowL (points pose)) \<longrightarrow>
            foreArmLCos pose = 0) \<and>
         (metric (wristR (points pose)) = metric (elbowR (points pose)) \<longrightarrow>
            foreArmRCos pose = 0) \<and>
         (armLCos pose = 0 \<or> armRCos pose = 0 \<or> foreArmLCos pose = 0 \<or>
          foreArmRCos pose = 0 \<longrightarrow>
            cosMin pose \<le> 0 \<and>
            handsUp (fst (update super_update result stream this)) = False) \<and>
         snd (update super_update result stream this) =
           snd (super_update result stream (asPoseRenderer this))"
proof -
  have tl: "metric (shoulderL (points pose)) = metric (hipL (points pose)) \<longrightarrow>
            armLCos pose = 0"
    by (simp add: armLCos_def torsoL_def limb_zero Dot_zero)
  have tr: "metric (shoulderR (points pose)) = metric (hipR (points pose)) \<longrightarrow>
            armRCos pose = 0"
    by (simp add: armRCos_def torsoR_def limb_zero Dot_zero)
  have al: "metric (elbowL (points pose)) = metric (shoulderL (points pose)) \<longrightarrow>
            armLCos pose = 0 \<and> foreArmLCos pose = 0"
    by (simp add: armLCos_def foreArmLCos_def armL_def limb_zero Dot_zero)
  have ar: "metric (elbowR (points pose)) = metric (shoulderR (points pose)) \<longrightarrow>
            armRCos pose = 0 \<and> foreArmRCos pose = 0"
    by (simp add: armRCos_def foreArmRCos_def armR_def limb_zero Dot_zero)
  have fl: "metric (wristL (points pose)) = metric (elbowL (points pose)) \<longrightarrow>
            foreArmLCos pose = 0"
    by (simp add: foreArmLCos_def foreArmL_def limb_zero Dot_zero)
  have fr: "metric (wristR (points pose)) = metric (elbowR (points pose)) \<longrightarrow>
            foreArmRCos pose = 0"
    by (simp add: foreArmRCos_def foreArmR_def limb_zero Dot_zero)
  have low: "cosMin pose \<le> 0"
    if "armLCos pose = 0 \<or> armRCos pose = 0 \<or> foreArmLCos pose = 0 \<or> foreArmRCos pose = 0"
    using that cosMin_le [of pose] by auto
  have off: "handsUp (fst (update super_update result stream this)) = False"
    if "cosMin pose \<le> 0"
    using that assms by (simp add: handsUp_update)
  show ?thesis
    using tl tr al ar fl fr low off
    by (simp only: normalize_v_zero snd_update simp_thms) blast
qed

text \<open>
  All joints at one point: the four cosines are 0.
\<close>

theorem update_degenerate_limb_witness:
  "firstPose (frame collapsed_pose) = Some collapsed_pose \<and>
   metric (shoulderL (points collapsed_pose)) = metric (hipL (points collapsed_pose)) \<and>
   metric (shoulderR (points collapsed_pose)) = metric (hipR (points collapsed_pose)) \<and>
   metric (elbowL (points collapsed_pose)) = metric (shoulderL (points collapsed_pose)) \<and>
   metric (elbowR (points collapsed_pose)) = metric (shoulderR (points collapsed_pose)) \<and>
   metric (wristL (points collapsed_pose)) = metric (elbowL (points collapsed_pose)) \<and>
   metric (wristR (points collapsed_pose)) = metric (elbowR (points collapsed_pose)) \<and>
   armLCos collapsed_pose = 0 \<and> armRCos collapsed_pose = 0 \<and>
   foreArmLCos collapsed_pose = 0 \<and> foreArmRCos collapsed_pose = 0 \<and>
   cosMin collapsed_pose \<le> 0 \<and>
   handsUp (fst (update ok_update (frame collapsed_pose) () (renderer0 True True))) = False \<and>
   snd (update ok_update (frame collapsed_pose) () (renderer0 True True)) = None"
proof -
  have m: "metric (shoulderL (points collapsed_pose)) = metric (hipL (points collapsed_pose))"
    "metric (shoulderR (points collapsed_pose)) = metric (hipR (points collapsed_pose))"
    "metric (elbowL (points collapsed_pose)) = metric (shoulderL (points collapsed_pose))"
    "metric (elbowR (points collapsed_pose)) = metric (shoulderR (points collapsed_pose))"
    "metric (wristL (points collapsed_pose)) = metric (elbowL (points collapsed_pose))"
    "metric (wristR (points collapsed_pose)) = metric (elbowR (points collapsed_pose))"
    by (simp_all add: collapsed_pose_def)
  have s: "snd (ok_update (frame collapsed_pose) () (asPoseRenderer (renderer0 True True))) = None"
    by (simp add: ok_update_def)
  show ?thesis
    using update_degenerate_limb [OF firstPose_frame, where pose = collapsed_pose
        and super_update = ok_update and stream = "()" and this = "renderer0 True True"] m s
    by (simp add: firstPose_frame)
qed

section \<open>Properties of load\<close>

text \<open>
  Claim C10. On a renderer that is loaded or has no scene, load returns the renderer
  unchanged and does not reject. If the base class's load, when it succeeds, leaves the
  renderer loaded, then after any call of load that did not reject a second call returns
  the renderer unchanged.
\<close>

theorem load_guard_idempotent:
  "(loaded this \<or> scene this = None \<longrightarrow>
      load loadAssets super_load this = (this, None)) \<and>
   ((\<forall>b. snd (super_load b) = None \<longrightarrow> loaded (fst (super_load b))) \<and>
    snd (load loadAssets super_load this) = None \<longrightarrow>
      load loadAssets super_load (fst (load loadAssets super_load this)) =
        (fst (load loadAssets super_load this), None))"
proof -
  have guard: "load loadAssets super_load s = (s, None)" if "loaded s \<or> scene s = None"
    for s :: "('a, 'b, 'c) AvatarRenderer"
    using that by (simp add: load_def)
  have again: "loaded (fst (load loadAssets super_load this)) \<or>
               scene (fst (load loadAssets super_load this)) = None"
    if c: "\<forall>b. snd (super_load b) = None \<longrightarrow> loaded (fst (super_load b))"
      and ok: "snd (load loadAssets super_load this) = None"
  proof (cases "loaded this \<or> scene this = None")
    case True
    then show ?thesis by (simp add: load_def)
  next
    case False
    obtain this1 e where su: "setupScene loadAssets this = (this1, e)"
      by (cases "setupScene loadAssets this")
    from False ok su have e: "e = None"
      by (cases e) (auto simp: load_def)
    from False su e have l: "load loadAssets super_load this = super_call super_load this1"
      by (auto simp: load_def)
    with ok have "snd (super_load (asPoseRenderer this1)) = None"
      by (simp add: snd_super_call)
    with c have "loaded (fst (super_load (asPoseRenderer this1)))" by blast
    then have "loaded (fst (super_call super_load this1))"
      by (auto simp: super_call_def split: prod.splits)
    with l show ?thesis by simp
  qed
  show ?thesis using guard again by blast
qed


lemma load_unloaded0:
  "snd (load demo_loader ok_load unloaded0) = None"
  "loaded (fst (load demo_loader ok_load unloaded0))"
  "map_option mesh_id (textModel (fst (load demo_loader ok_load unloaded0))) = Some ''__root__''"
  "map_option meshes (scene (fst (load demo_loader ok_load unloaded0))) =
     Some [''__root__'', ''Text'', ''__root__'', ''Text'']"
  by (simp_all add: load_def unloaded0_def renderer0_def setupScene_def setModel_def
      setOutfit_def demo_loader_def addAllToScene_def mesh0_def Let_def super_call_def
      asPoseRenderer_def ok_load_def scene0_def)

text \<open>
  A loaded renderer is returned as it is. With a base class whose load succeeds and leaves
  the renderer loaded, an unloaded renderer with a scene is set up and loaded by the
  first call, and returned as it is by the second.
\<close>

theorem load_guard_idempotent_witness:
  "(loaded (renderer0 False False) \<or> scene (renderer0 False False) = None) \<and>
   load demo_loader ok_load (renderer0 False False) = (renderer0 False False, None) \<and>
   (\<forall>b. snd (ok_load b) = None \<and> loaded (fst (ok_load b))) \<and>
   \<not> loaded unloaded0 \<and> scene unloaded0 \<noteq> None \<and>
   snd (load demo_loader ok_load unloaded0) = None \<and>
   fst (load demo_loader ok_load unloaded0) \<noteq> unloaded0 \<and>
   load demo_loader ok_load (fst (load demo_loader ok_load unloaded0)) =
     (fst (load demo_loader ok_load unloaded0), None)"
proof -
  have g: "loaded (renderer0 False False)" by (simp add: renderer0_def)
  have c: "\<forall>b. snd (ok_load b) = None \<and> loaded (fst (ok_load b))"
    by (simp add: ok_load_def)
  have u: "\<not> loaded unloaded0" "scene unloaded0 \<noteq> None" by (simp_all add: unloaded0_def)
  have d: "fst (load demo_loader ok_load unloaded0) \<noteq> unloaded0"
    using load_unloaded0(2) u(1) by auto
  show ?thesis
    using load_guard_idempotent [where this = "renderer0 False False"
        and loadAssets = demo_loader and super_load = ok_load]
      load_guard_idempotent [where this = unloaded0
        and loadAssets = demo_loader and super_load = ok_load]
      g c u d load_unloaded0(1)
    by simp
qed

end
